theory Spec2Isabelle
  imports Main "HOL-Library.AList" "HOL-Library.Sublist"
begin

section \<open>Data model of \<^verbatim>\<open>crawlera_session/__init__.py\<close>\<close>

text \<open>
  Session keys (the \<^verbatim>\<open>cookiejar\<close> meta value), session tokens and header values are
  strings. A Python \<^verbatim>\<open>dict\<close> or \<^verbatim>\<open>OrderedDict\<close> is an association list in insertion order:
  assigning to a present key keeps its position, assigning to a new key appends
  (\<^const>\<open>AList.update\<close>), and a lookup is \<^const>\<open>map_of\<close>.
\<close>

text \<open>The exceptions the module raises or lets through.\<close>

datatype error =
    SessionNotInitializedError
  | WrongSessionError
  | KeyError
  | IgnoreRequest

text \<open>How a call ends: it returns a value or it raises.\<close>

datatype 'a outcome = Returned 'a | Raised error

text \<open>The attributes of a \<^verbatim>\<open>RequestSession\<close> object, set by its \<^verbatim>\<open>__init__\<close>.\<close>

record request_session =
  crawlera_session :: bool
  x_crawlera_cookies :: "string option"
  x_crawlera_profile :: "string option"
  x_crawlera_wait :: "string option"

text \<open>The defaults of \<^verbatim>\<open>RequestSession.__init__\<close>.\<close>

definition default_request_session :: request_session where
  "default_request_session =
     \<lparr>crawlera_session = True, x_crawlera_cookies = Some ''disable'',
      x_crawlera_profile = None, x_crawlera_wait = None\<rparr>"

text \<open>
  A request: the three \<^verbatim>\<open>meta\<close> keys the module reads or writes and the headers.
  \<^verbatim>\<open>meta['defer_assign_crawlera_session']\<close> holds the bound method
  \<^verbatim>\<open>self.assign_crawlera_session\<close>, that is the \<^verbatim>\<open>RequestSession\<close> it is bound to.
  \<open>None\<close> in a meta field means the key is absent.
\<close>

record request =
  meta_cookiejar :: "string option"
  meta_no_crawlera_session :: bool
  meta_defer_assign_crawlera_session :: "request_session option"
  headers :: "(string \<times> string) list"

text \<open>A response: \<^verbatim>\<open>response.meta['cookiejar']\<close> and the response headers.\<close>

record response =
  response_meta_cookiejar :: "string option"
  response_headers :: "(string \<times> string) list"

text \<open>
  The spider state of \<^verbatim>\<open>CrawleraSessionMixinSpider\<close>: the session pool, the locked keys,
  the capacity bound, and the stats counter \<^verbatim>\<open>crawlera_sessions/no_unlocked_sessions\<close> of
  \<^verbatim>\<open>spider.crawler.stats\<close>.
\<close>

record spider =
  crawlera_sessions :: "(string \<times> string) list"
  locked_sessions :: "string set"
  MAX_PARALLEL_CRAWLERA_SESSIONS :: "int option"
  stats_no_unlocked_sessions :: nat

text \<open>The class attributes as the mixin declares them, with a given capacity.\<close>

definition new_spider :: "int option \<Rightarrow> spider" where
  "new_spider cap =
     \<lparr>crawlera_sessions = [], locked_sessions = {},
      MAX_PARALLEL_CRAWLERA_SESSIONS = cap, stats_no_unlocked_sessions = 0\<rparr>"

section \<open>The spider mixin\<close>

definition can_add_new_sessions :: "spider \<Rightarrow> bool" where
  "can_add_new_sessions s =
     (case MAX_PARALLEL_CRAWLERA_SESSIONS s of
        None \<Rightarrow> True
      | Some m \<Rightarrow> int (length (crawlera_sessions s)) < m)"

definition available_sessions :: "spider \<Rightarrow> string list" where
  "available_sessions s =
     filter (\<lambda>k. k \<notin> locked_sessions s) (map fst (crawlera_sessions s))"

text \<open>\<^verbatim>\<open>dict.setdefault(k, v)\<close>: a present key keeps its value, a new key is appended.\<close>

definition setdefault :: "string \<Rightarrow> string \<Rightarrow> (string \<times> string) list \<Rightarrow> (string \<times> string) list" where
  "setdefault k v d = (case map_of d k of None \<Rightarrow> d @ [(k, v)] | Some _ \<Rightarrow> d)"

text \<open>
  \<^verbatim>\<open>random.choice(xs)\<close> on a non-empty list: the random source is the number \<open>pick\<close>,
  and every element is chosen by some \<open>pick\<close>.
\<close>

definition random_choice :: "nat \<Rightarrow> 'a list \<Rightarrow> 'a" where
  "random_choice pick xs = xs ! (pick mod length xs)"

section \<open>\<^verbatim>\<open>RequestSession\<close>\<close>

definition adapt_request :: "request_session \<Rightarrow> request \<Rightarrow> request" where
  "adapt_request self r =
     (let h1 = (case x_crawlera_cookies self of
                  None \<Rightarrow> headers r
                | Some v \<Rightarrow> AList.update ''X-Crawlera-Cookies'' v (headers r));
          h2 = (case x_crawlera_profile self of
                  None \<Rightarrow> h1
                | Some v \<Rightarrow> AList.update ''X-Crawlera-Profile'' v h1);
          h3 = (case x_crawlera_wait self of
                  None \<Rightarrow> h2
                | Some v \<Rightarrow> AList.update ''X-Crawlera-Wait'' v h2)
      in r\<lparr>headers := h3\<rparr>)"

text \<open>\<^verbatim>\<open>init_request\<close>; \<open>uuid\<close> is the value of \<^verbatim>\<open>str(uuid.uuid1())\<close>.\<close>

definition init_request :: "request_session \<Rightarrow> string \<Rightarrow> request \<Rightarrow> request" where
  "init_request self uuid r =
     (let r1 = (case meta_cookiejar r of
                  None \<Rightarrow> r\<lparr>meta_cookiejar := Some uuid\<rparr>
                | Some _ \<Rightarrow> r);
          r2 = (if crawlera_session self
                then r1\<lparr>headers := AList.update ''X-Crawlera-Session'' ''create'' (headers r1)\<rparr>
                else r1)
      in adapt_request self r2)"

text \<open>
  The second half of \<^verbatim>\<open>assign_crawlera_session\<close>, entered with a cookiejar: the token lookup
  (a missing key raises \<^verbatim>\<open>KeyError\<close> before anything is written), the adaptation headers,
  the check that the request has no cookiejar yet, the lock. A raise leaves the request as
  it was mutated up to that point.
\<close>

definition assign_cookiejar ::
  "request_session \<Rightarrow> spider \<Rightarrow> request \<Rightarrow> string \<Rightarrow> bool outcome \<times> request \<times> spider" where
  "assign_cookiejar self s r cookiejar =
     (if crawlera_session self \<and> map_of (headers r) ''X-Crawlera-Session'' = None
         \<and> map_of (crawlera_sessions s) cookiejar = None
      then (Raised KeyError, r, s)
      else
        let r1 = (if crawlera_session self \<and> map_of (headers r) ''X-Crawlera-Session'' = None
                  then (case map_of (crawlera_sessions s) cookiejar of
                          None \<Rightarrow> r
                        | Some session \<Rightarrow>
                            r\<lparr>headers := AList.update ''X-Crawlera-Session'' session (headers r)\<rparr>)
                  else r);
            r2 = adapt_request self r1
        in case meta_cookiejar r2 of
             None \<Rightarrow>
               (Returned True, r2\<lparr>meta_cookiejar := Some cookiejar\<rparr>,
                s\<lparr>locked_sessions := insert cookiejar (locked_sessions s)\<rparr>)
           | Some _ \<Rightarrow> (Raised WrongSessionError, r2, s))"

text \<open>
  \<^verbatim>\<open>assign_crawlera_session(spider, request, cookiejar=None)\<close>. After \<^verbatim>\<open>init_request\<close> the
  request always has a cookiejar, so \<^verbatim>\<open>request.meta['cookiejar']\<close> cannot fail there; the
  model writes the impossible case as a \<^verbatim>\<open>KeyError\<close> all the same.
\<close>

definition assign_crawlera_session ::
  "request_session \<Rightarrow> string \<Rightarrow> nat \<Rightarrow> spider \<Rightarrow> request \<Rightarrow> string option
     \<Rightarrow> bool outcome \<times> request \<times> spider" where
  "assign_crawlera_session self uuid pick s r cookiejar =
     (case cookiejar of
        Some c \<Rightarrow> assign_cookiejar self s r c
      | None \<Rightarrow>
          if can_add_new_sessions s then
            (let r1 = init_request self uuid r
             in case meta_cookiejar r1 of
                  None \<Rightarrow> (Raised KeyError, r1, s)
                | Some k \<Rightarrow>
                    (Returned True, r1, s\<lparr>locked_sessions := insert k (locked_sessions s)\<rparr>))
          else if available_sessions s \<noteq> [] then
            assign_cookiejar self s r (random_choice pick (available_sessions s))
          else (Returned False, r, s))"

text \<open>
  The \<^verbatim>\<open>follow_session\<close> wrapper before its loop: a response without cookiejar raises
  \<^verbatim>\<open>SessionNotInitializedError\<close>, a response without the session header raises \<^verbatim>\<open>KeyError\<close>,
  otherwise the token is recorded with \<^verbatim>\<open>setdefault\<close> and the cookiejar is kept for the loop.
\<close>

definition follow_session_record :: "spider \<Rightarrow> response \<Rightarrow> string outcome \<times> spider" where
  "follow_session_record s resp =
     (case response_meta_cookiejar resp of
        None \<Rightarrow> (Raised SessionNotInitializedError, s)
      | Some cookiejar \<Rightarrow>
          (case map_of (response_headers resp) ''X-Crawlera-Session'' of
             None \<Rightarrow> (Raised KeyError, s)
           | Some token \<Rightarrow>
               (Returned cookiejar,
                s\<lparr>crawlera_sessions := setdefault cookiejar token (crawlera_sessions s)\<rparr>)))"

text \<open>
  One turn of the loop of \<^verbatim>\<open>follow_session\<close> for a request the callback yields: it is bound
  to the cookiejar of the response unless it has the meta flag \<^verbatim>\<open>no_crawlera_session\<close>; the
  value the bind returns is not used.
\<close>

definition follow_session_assign ::
  "request_session \<Rightarrow> string \<Rightarrow> nat \<Rightarrow> spider \<Rightarrow> request \<Rightarrow> string
     \<Rightarrow> unit outcome \<times> request \<times> spider" where
  "follow_session_assign self uuid pick s r cookiejar =
     (if meta_no_crawlera_session r then (Returned (), r, s)
      else (case assign_crawlera_session self uuid pick s r (Some cookiejar) of
              (Raised e, r1, s1) \<Rightarrow> (Raised e, r1, s1)
            | (Returned b, r1, s1) \<Rightarrow> (Returned (), r1, s1)))"

text \<open>
  The body of the \<^verbatim>\<open>unlock_session\<close> wrapper up to the call of the wrapped callback:
  \<^verbatim>\<open>response.meta['cookiejar']\<close> raises \<^verbatim>\<open>KeyError\<close> when absent, \<^verbatim>\<open>set.discard\<close> never raises.
\<close>

definition unlock_session :: "spider \<Rightarrow> response \<Rightarrow> unit outcome \<times> spider" where
  "unlock_session s resp =
     (case response_meta_cookiejar resp of
        None \<Rightarrow> (Raised KeyError, s)
      | Some k \<Rightarrow> (Returned (), s\<lparr>locked_sessions := locked_sessions s - {k}\<rparr>))"

section \<open>\<^verbatim>\<open>CrawleraSessionCookiesMiddleware\<close>\<close>

text \<open>
  \<^verbatim>\<open>process_response\<close> up to the call of the base class: when the response has the session
  header, the token is recorded under the request's cookiejar with \<^verbatim>\<open>setdefault\<close>.
\<close>

definition process_response :: "spider \<Rightarrow> request \<Rightarrow> response \<Rightarrow> unit outcome \<times> spider" where
  "process_response s r resp =
     (case map_of (response_headers resp) ''X-Crawlera-Session'' of
        None \<Rightarrow> (Returned (), s)
      | Some token \<Rightarrow>
          (case meta_cookiejar r of
             None \<Rightarrow> (Raised KeyError, s)
           | Some cookiejar \<Rightarrow>
               (Returned (),
                s\<lparr>crawlera_sessions := setdefault cookiejar token (crawlera_sessions s)\<rparr>)))"

text \<open>
  \<^verbatim>\<open>process_request\<close> up to the call of the base class. \<open>Returned ()\<close> means that control
  goes on to \<^verbatim>\<open>CookiesMiddleware.process_request\<close> with the request and spider returned here.
  The deferred bind is called with no cookiejar.
\<close>

definition process_request ::
  "string \<Rightarrow> nat \<Rightarrow> spider \<Rightarrow> request \<Rightarrow> unit outcome \<times> request \<times> spider" where
  "process_request uuid pick s r =
     (case meta_defer_assign_crawlera_session r of
        None \<Rightarrow> (Returned (), r, s)
      | Some self \<Rightarrow>
          (case assign_crawlera_session self uuid pick s r None of
             (Raised e, r1, s1) \<Rightarrow> (Raised e, r1, s1)
           | (Returned True, r1, s1) \<Rightarrow>
               (Returned (), r1\<lparr>meta_defer_assign_crawlera_session := None\<rparr>, s1)
           | (Returned False, r1, s1) \<Rightarrow>
               (Raised IgnoreRequest, r1,
                s1\<lparr>stats_no_unlocked_sessions := stats_no_unlocked_sessions s1 + 1\<rparr>)))"

subsection \<open>The patched \<^verbatim>\<open>scheduler.next_request\<close>\<close>

text \<open>
  \<^verbatim>\<open>request.meta.get('cookiejar')\<close> is tested for truth: an absent key and the empty string
  both fail the test.
\<close>

definition cookiejar_truthy :: "request \<Rightarrow> bool" where
  "cookiejar_truthy r = (case meta_cookiejar r of None \<Rightarrow> False | Some k \<Rightarrow> k \<noteq> [])"

definition can_enqueue_request :: "spider \<Rightarrow> request \<Rightarrow> bool" where
  "can_enqueue_request s r =
     (if cookiejar_truthy r then True
      else if can_add_new_sessions s then True
      else if available_sessions s \<noteq> [] then True
      else False)"

text \<open>The \<^verbatim>\<open>for\<close> loop over the retained requests: the first one that can be enqueued.\<close>

fun first_enqueueable :: "spider \<Rightarrow> request list \<Rightarrow> request option" where
  "first_enqueueable s [] = None"
| "first_enqueueable s (r # rs) =
     (if can_enqueue_request s r then Some r else first_enqueueable s rs)"

text \<open>
  The middleware's list of retained requests, and the scheduler it wraps: the original
  \<^verbatim>\<open>next_request\<close> hands out the requests of \<open>scheduler_queue\<close> in order and \<^verbatim>\<open>None\<close> when
  it is empty.
\<close>

record gate =
  retained_requests :: "request list"
  scheduler_queue :: "request list"

definition next_request :: "spider \<Rightarrow> gate \<Rightarrow> request option \<times> gate" where
  "next_request s g =
     (case first_enqueueable s (retained_requests g) of
        Some r \<Rightarrow> (Some r, g\<lparr>retained_requests := remove1 r (retained_requests g)\<rparr>)
      | None \<Rightarrow>
          (case scheduler_queue g of
             [] \<Rightarrow> (None, g)
           | new_request # rest \<Rightarrow>
               if can_enqueue_request s new_request
               then (Some new_request, g\<lparr>scheduler_queue := rest\<rparr>)
               else (None, g\<lparr>retained_requests := retained_requests g @ [new_request],
                             scheduler_queue := rest\<rparr>)))"

text \<open>The gate when the spider opens: nothing retained, the scheduler holding \<open>q\<close>.\<close>

definition new_gate :: "request list \<Rightarrow> gate" where
  "new_gate q = \<lparr>retained_requests = [], scheduler_queue = q\<rparr>"

text \<open>Successive pulls, one per spider state in the list (the state may change between pulls).\<close>

fun pulls :: "spider list \<Rightarrow> gate \<Rightarrow> request option list \<times> gate" where
  "pulls [] g = ([], g)"
| "pulls (s # ss) g =
     (case next_request s g of
        (out, g1) \<Rightarrow> (case pulls ss g1 of (outs, g2) \<Rightarrow> (out # outs, g2)))"

section \<open>Runs of pool and lock operations\<close>

text \<open>
  The operations that write the pool or the locked set: a bind, the recording of a token
  from a response, an unlock. A step keeps the spider state the operation leaves behind,
  also when it raises.
\<close>

datatype event =
    Bind request_session string nat request "string option"
  | Record request response
  | Unlock response

fun step :: "event \<Rightarrow> spider \<Rightarrow> spider" where
  "step (Bind self uuid pick r cookiejar) s =
     snd (snd (assign_crawlera_session self uuid pick s r cookiejar))"
| "step (Record r resp) s = snd (process_response s r resp)"
| "step (Unlock resp) s = snd (unlock_session s resp)"

fun run :: "event list \<Rightarrow> spider \<Rightarrow> spider" where
  "run [] s = s"
| "run (e # es) s = run es (step e s)"

text \<open>The keys of the session pool.\<close>

definition pool_keys :: "spider \<Rightarrow> string set" where
  "pool_keys s = fst ` set (crawlera_sessions s)"

text \<open>
  The key a bind attaches to its request when it succeeds while the pool has no token for
  that key.
\<close>

definition unconfirmed_key :: "event \<Rightarrow> spider \<Rightarrow> string set" where
  "unconfirmed_key e s =
     (case e of
        Bind self uuid pick r cookiejar \<Rightarrow>
          (case assign_crawlera_session self uuid pick s r cookiejar of
             (Returned True, r1, s1) \<Rightarrow>
               (case meta_cookiejar r1 of
                  None \<Rightarrow> {}
                | Some k \<Rightarrow> if map_of (crawlera_sessions s) k = None then {k} else {})
           | (Returned False, r1, s1) \<Rightarrow> {}
           | (Raised e, r1, s1) \<Rightarrow> {})
      | Record r resp \<Rightarrow> {}
      | Unlock resp \<Rightarrow> {})"

fun unconfirmed_keys :: "event list \<Rightarrow> spider \<Rightarrow> string set" where
  "unconfirmed_keys [] s = {}"
| "unconfirmed_keys (e # es) s = unconfirmed_key e s \<union> unconfirmed_keys es (step e s)"

section \<open>Concrete inputs\<close>

text \<open>A request as \<^verbatim>\<open>Request(url)\<close> builds it, and one marked by \<^verbatim>\<open>defer_assign_session\<close>.\<close>

definition plain_request :: request where
  "plain_request =
     \<lparr>meta_cookiejar = None, meta_no_crawlera_session = False,
      meta_defer_assign_crawlera_session = None, headers = []\<rparr>"

definition deferred_request :: request where
  "deferred_request =
     plain_request\<lparr>meta_defer_assign_crawlera_session := Some default_request_session\<rparr>"

text \<open>A response whose request has cookiejar \<open>k\<close>, carrying the session token \<open>t\<close>.\<close>

definition session_response :: "string \<Rightarrow> string \<Rightarrow> response" where
  "session_response k t =
     \<lparr>response_meta_cookiejar = Some k, response_headers = [(''X-Crawlera-Session'', t)]\<rparr>"

text \<open>The request \<^verbatim>\<open>Request(url)\<close> after a bind that started a new session with key \<open>k\<close>.\<close>

definition bound_request :: "string \<Rightarrow> request" where
  "bound_request k = init_request default_request_session k plain_request"

text \<open>
  A spider with capacity 1 whose pool holds the one session \<^verbatim>\<open>k1\<close>, unlocked and locked.
\<close>

definition pool1 :: spider where
  "pool1 = (new_spider (Some 1))\<lparr>crawlera_sessions := [(''k1'', ''t1'')]\<rparr>"

definition pool1_locked :: spider where
  "pool1_locked = pool1\<lparr>locked_sessions := {''k1''}\<rparr>"

text \<open>Two requests marked by \<^verbatim>\<open>defer_assign_session\<close>, told apart by a header.\<close>

definition deferred1 :: request where
  "deferred1 = deferred_request\<lparr>headers := [(''Referer'', ''page1'')]\<rparr>"

definition deferred2 :: request where
  "deferred2 = deferred_request\<lparr>headers := [(''Referer'', ''page2'')]\<rparr>"

section \<open>Basic facts\<close>

lemma adapt_request_meta [simp]:
  "meta_cookiejar (adapt_request self r) = meta_cookiejar r"
  "meta_defer_assign_crawlera_session (adapt_request self r)
     = meta_defer_assign_crawlera_session r"
  "meta_no_crawlera_session (adapt_request self r) = meta_no_crawlera_session r"
  by (simp_all add: adapt_request_def Let_def)

lemma adapt_request_session_header [simp]:
  "map_of (headers (adapt_request self r)) ''X-Crawlera-Session''
     = map_of (headers r) ''X-Crawlera-Session''"
  by (simp add: adapt_request_def Let_def update_conv' split: option.splits)

section \<open>Unlocking\<close>

text \<open>
  Claim C10. For every session key \<open>k\<close>, unlocking \<open>k\<close> raises nothing; when \<open>k\<close> is not in
  the locked set the spider state is unchanged; and unlocking twice is the same as
  unlocking once.
\<close>

theorem unlock_session_idempotent:
  assumes "response_meta_cookiejar resp = Some k"
  shows "fst (unlock_session s resp) = Returned ()
       \<and> (k \<notin> locked_sessions s \<longrightarrow> unlock_session s resp = (Returned (), s))
       \<and> unlock_session (snd (unlock_session s resp)) resp = unlock_session s resp"
proof -
  have "k \<notin> locked_sessions s \<Longrightarrow> locked_sessions s - {k} = locked_sessions s"
    by blast
  with assms show ?thesis
    by (simp add: unlock_session_def)
qed

theorem unlock_session_idempotent_witness:
  "response_meta_cookiejar (session_response ''k1'' ''t1'') = Some ''k1''
   \<and> ''k1'' \<notin> locked_sessions ((new_spider None)\<lparr>locked_sessions := {''k2''}\<rparr>)
   \<and> unlock_session ((new_spider None)\<lparr>locked_sessions := {''k2''}\<rparr>)
        (session_response ''k1'' ''t1'')
      = (Returned (), (new_spider None)\<lparr>locked_sessions := {''k2''}\<rparr>)"
  using unlock_session_idempotent [of "session_response ''k1'' ''t1''" "''k1''"
      "(new_spider None)\<lparr>locked_sessions := {''k2''}\<rparr>"]
  by (simp add: new_spider_def session_response_def)

section \<open>The dispatch-time hook\<close>

text \<open>
  Claim C9. When the deferred bind of a request succeeds in \<^verbatim>\<open>process_request\<close>, the hook
  removes the marker from the request and passes on the bound request; when that request
  goes through the hook again, in any spider state, nothing is bound: request and spider
  are passed on as they are.
\<close>

theorem process_request_pops_deferred:
  assumes "meta_defer_assign_crawlera_session r = Some self"
    and "assign_crawlera_session self uuid pick s r None = (Returned True, r1, s1)"
  shows "process_request uuid pick s r
           = (Returned (), r1\<lparr>meta_defer_assign_crawlera_session := None\<rparr>, s1)
       \<and> process_request uuid' pick' s' (r1\<lparr>meta_defer_assign_crawlera_session := None\<rparr>)
           = (Returned (), r1\<lparr>meta_defer_assign_crawlera_session := None\<rparr>, s')"
  using assms by (simp add: process_request_def)

theorem process_request_pops_deferred_witness:
  "process_request ''k1'' 0 (new_spider None) deferred_request
     = (Returned (),
        \<lparr>meta_cookiejar = Some ''k1'', meta_no_crawlera_session = False,
         meta_defer_assign_crawlera_session = None,
         headers = [(''X-Crawlera-Session'', ''create''), (''X-Crawlera-Cookies'', ''disable'')]\<rparr>,
        (new_spider None)\<lparr>locked_sessions := {''k1''}\<rparr>)
   \<and> process_request ''k9'' 0 ((new_spider None)\<lparr>locked_sessions := {''k1''}\<rparr>)
        \<lparr>meta_cookiejar = Some ''k1'', meta_no_crawlera_session = False,
         meta_defer_assign_crawlera_session = None,
         headers = [(''X-Crawlera-Session'', ''create''), (''X-Crawlera-Cookies'', ''disable'')]\<rparr>
     = (Returned (),
        \<lparr>meta_cookiejar = Some ''k1'', meta_no_crawlera_session = False,
         meta_defer_assign_crawlera_session = None,
         headers = [(''X-Crawlera-Session'', ''create''), (''X-Crawlera-Cookies'', ''disable'')]\<rparr>,
        (new_spider None)\<lparr>locked_sessions := {''k1''}\<rparr>)"
proof -
  have d: "meta_defer_assign_crawlera_session deferred_request = Some default_request_session"
    by (simp add: deferred_request_def)
  have a: "assign_crawlera_session default_request_session ''k1'' 0 (new_spider None)
             deferred_request None
      = (Returned True,
        \<lparr>meta_cookiejar = Some ''k1'', meta_no_crawlera_session = False,
         meta_defer_assign_crawlera_session = Some default_request_session,
         headers = [(''X-Crawlera-Session'', ''create''), (''X-Crawlera-Cookies'', ''disable'')]\<rparr>,
        (new_spider None)\<lparr>locked_sessions := {''k1''}\<rparr>)"
    by (simp add: assign_crawlera_session_def can_add_new_sessions_def new_spider_def
        init_request_def adapt_request_def deferred_request_def plain_request_def
        default_request_session_def Let_def)
  from process_request_pops_deferred [OF d a,
      of "''k9''" 0 "(new_spider None)\<lparr>locked_sessions := {''k1''}\<rparr>"]
  show ?thesis by simp
qed

text \<open>A bind that returns \<^verbatim>\<open>False\<close> has written neither the request nor the spider.\<close>

lemma assign_cookiejar_not_False:
  "fst (assign_cookiejar self s r c) \<noteq> Returned False"
  by (simp add: assign_cookiejar_def Let_def split: option.splits)

lemma assign_crawlera_session_False:
  assumes "fst (assign_crawlera_session self uuid pick s r cookiejar) = Returned False"
  shows "assign_crawlera_session self uuid pick s r cookiejar = (Returned False, r, s)"
  using assms assign_cookiejar_not_False
  by (simp add: assign_crawlera_session_def Let_def split: option.splits if_splits)

text \<open>
  Claim C7, as stated: when the deferred bind reports that no session is available, the
  hook counts the rejection and raises nothing. With capacity 0 the bind of a deferred
  request returns \<^verbatim>\<open>False\<close>, and the hook raises \<^verbatim>\<open>IgnoreRequest\<close>.
\<close>

theorem process_request_rejected_raises_counterexample:
  "fst (assign_crawlera_session default_request_session ''u1'' 0 (new_spider (Some 0)) deferred_request None)
     = Returned False
   \<and> process_request ''u1'' 0 (new_spider (Some 0)) deferred_request
     = (Raised IgnoreRequest, deferred_request,
        (new_spider (Some 0))\<lparr>stats_no_unlocked_sessions := 1\<rparr>)"
  by (simp add: process_request_def assign_crawlera_session_def can_add_new_sessions_def
      available_sessions_def new_spider_def deferred_request_def plain_request_def)

text \<open>
  Claim C7, amended. When the deferred bind returns \<^verbatim>\<open>False\<close>, the hook adds one to the
  counter \<^verbatim>\<open>crawlera_sessions/no_unlocked_sessions\<close> and raises \<^verbatim>\<open>IgnoreRequest\<close>, the
  exception by which a downloader middleware tells the framework to drop a request. The
  request keeps its marker, and pool and locked set are unchanged.
\<close>

theorem process_request_rejected:
  assumes "meta_defer_assign_crawlera_session r = Some self"
    and "fst (assign_crawlera_session self uuid pick s r None) = Returned False"
  shows "process_request uuid pick s r
           = (Raised IgnoreRequest, r,
              s\<lparr>stats_no_unlocked_sessions := stats_no_unlocked_sessions s + 1\<rparr>)"
  using assms(1) assign_crawlera_session_False [OF assms(2)]
  by (simp add: process_request_def)

theorem process_request_rejected_witness:
  "meta_defer_assign_crawlera_session deferred_request = Some default_request_session
   \<and> fst (assign_crawlera_session default_request_session ''u1'' 0
        ((new_spider (Some 1))\<lparr>crawlera_sessions := [(''k1'', ''t1'')], locked_sessions := {''k1''}\<rparr>)
        deferred_request None) = Returned False
   \<and> process_request ''u1'' 0
        ((new_spider (Some 1))\<lparr>crawlera_sessions := [(''k1'', ''t1'')], locked_sessions := {''k1''}\<rparr>)
        deferred_request
     = (Raised IgnoreRequest, deferred_request,
        (new_spider (Some 1))\<lparr>crawlera_sessions := [(''k1'', ''t1'')], locked_sessions := {''k1''},
          stats_no_unlocked_sessions := 1\<rparr>)"
proof -
  have d: "meta_defer_assign_crawlera_session deferred_request = Some default_request_session"
    by (simp add: deferred_request_def)
  have a: "fst (assign_crawlera_session default_request_session ''u1'' 0
        ((new_spider (Some 1))\<lparr>crawlera_sessions := [(''k1'', ''t1'')], locked_sessions := {''k1''}\<rparr>)
        deferred_request None) = Returned False"
    by (simp add: assign_crawlera_session_def can_add_new_sessions_def
      available_sessions_def new_spider_def)
  from d a process_request_rejected [OF d a] show ?thesis
    by (simp add: new_spider_def)
qed

section \<open>Starting a session\<close>

text \<open>
  Claim C8, as stated: \<^verbatim>\<open>init_request\<close> gives every request a newly generated key and the
  token header \<^verbatim>\<open>create\<close>. A request that already has the cookiejar \<^verbatim>\<open>k0\<close> keeps it, and a
  \<^verbatim>\<open>RequestSession\<close> built with \<^verbatim>\<open>crawlera_session=False\<close> sets no token header.
\<close>

theorem init_request_keeps_cookiejar_counterexample:
  "meta_cookiejar (init_request default_request_session ''u1''
      (plain_request\<lparr>meta_cookiejar := Some ''k0''\<rparr>)) = Some ''k0''
   \<and> map_of (headers (init_request (default_request_session\<lparr>crawlera_session := False\<rparr>) ''u1''
      plain_request)) ''X-Crawlera-Session'' = None"
  by (simp add: init_request_def adapt_request_def plain_request_def default_request_session_def)

text \<open>
  Claim C8, amended. \<^verbatim>\<open>init_request\<close> takes no spider, so neither the pool nor the capacity
  bound can influence it. A request without a cookiejar gets the newly generated key, a
  request with a cookiejar keeps it; the token header is set to \<^verbatim>\<open>create\<close> when
  \<^verbatim>\<open>crawlera_session\<close> is on and is left as it was otherwise; the other meta keys are kept.
\<close>

theorem init_request_result:
  "meta_cookiejar (init_request self uuid r)
     = (case meta_cookiejar r of None \<Rightarrow> Some uuid | Some k \<Rightarrow> Some k)
   \<and> map_of (headers (init_request self uuid r)) ''X-Crawlera-Session''
     = (if crawlera_session self then Some ''create''
        else map_of (headers r) ''X-Crawlera-Session'')
   \<and> meta_defer_assign_crawlera_session (init_request self uuid r)
     = meta_defer_assign_crawlera_session r
   \<and> meta_no_crawlera_session (init_request self uuid r) = meta_no_crawlera_session r"
  by (simp add: init_request_def Let_def update_conv' split: option.splits)

section \<open>Recording a token\<close>

text \<open>
  Claim C5, as stated: recording a real token for a key whose stored token is \<^verbatim>\<open>create\<close>
  overwrites it. \<^verbatim>\<open>setdefault\<close> never overwrites: the stored \<^verbatim>\<open>create\<close> stays.
\<close>

theorem process_response_keeps_create_counterexample:
  "process_response ((new_spider None)\<lparr>crawlera_sessions := [(''k1'', ''create'')]\<rparr>)
      (plain_request\<lparr>meta_cookiejar := Some ''k1''\<rparr>) (session_response ''k1'' ''abc123'')
    = (Returned (), (new_spider None)\<lparr>crawlera_sessions := [(''k1'', ''create'')]\<rparr>)
   \<and> map_of [(''k1'', ''create'')] ''k1'' \<noteq> Some ''abc123''"
  by (simp add: process_response_def setdefault_def session_response_def new_spider_def
    plain_request_def)

text \<open>
  Claim C5, amended. When a response carries a session token for a request with cookiejar
  \<open>k\<close>, the token is stored only if the pool has no entry for \<open>k\<close>, and then a lookup of
  \<open>k\<close> gives that token; when the pool has an entry for \<open>k\<close>, whatever its token, the
  spider state is unchanged.
\<close>

theorem process_response_records_absent:
  assumes "map_of (response_headers resp) ''X-Crawlera-Session'' = Some t"
    and "meta_cookiejar r = Some k"
  shows "fst (process_response s r resp) = Returned ()
    \<and> map_of (crawlera_sessions (snd (process_response s r resp))) k
       = (case map_of (crawlera_sessions s) k of None \<Rightarrow> Some t | Some v \<Rightarrow> Some v)
    \<and> snd (process_response s r resp)
       = (case map_of (crawlera_sessions s) k of
            None \<Rightarrow> s\<lparr>crawlera_sessions := crawlera_sessions s @ [(k, t)]\<rparr>
          | Some v \<Rightarrow> s)"
  using assms
  by (simp add: process_response_def setdefault_def map_add_def split: option.splits)

theorem process_response_records_absent_witness:
  "map_of (response_headers (session_response ''k1'' ''abc123'')) ''X-Crawlera-Session'' = Some ''abc123''
   \<and> meta_cookiejar (plain_request\<lparr>meta_cookiejar := Some ''k1''\<rparr>) = Some ''k1''
   \<and> map_of (crawlera_sessions (snd (process_response (new_spider None)
        (plain_request\<lparr>meta_cookiejar := Some ''k1''\<rparr>) (session_response ''k1'' ''abc123'')))) ''k1''
      = Some ''abc123''"
  using process_response_records_absent [of "session_response ''k1'' ''abc123''" "''abc123''"
      "plain_request\<lparr>meta_cookiejar := Some ''k1''\<rparr>" "''k1''" "new_spider None"]
  by (simp add: session_response_def new_spider_def)

text \<open>\<^verbatim>\<open>follow_session\<close> records the token of its response the same way.\<close>

lemma follow_session_record_pool:
  assumes "response_meta_cookiejar resp = Some k"
    and "map_of (response_headers resp) ''X-Crawlera-Session'' = Some t"
  shows "fst (follow_session_record s resp) = Returned k"
    and "snd (follow_session_record s resp)
           = snd (process_response s (r\<lparr>meta_cookiejar := Some k\<rparr>) resp)"
  using assms by (simp_all add: follow_session_record_def process_response_def)

section \<open>Binding a request\<close>

lemma random_choice_in_set: "xs \<noteq> [] \<Longrightarrow> random_choice pick xs \<in> set xs"
  by (simp add: random_choice_def)

lemma available_sessions_in_pool:
  "k \<in> set (available_sessions s) \<Longrightarrow> map_of (crawlera_sessions s) k \<noteq> None"
  by (auto simp: available_sessions_def map_of_eq_None_iff)

lemma assign_cookiejar_conflict:
  assumes "meta_cookiejar r = Some k0" and "map_of (crawlera_sessions s) c \<noteq> None"
  shows "fst (assign_cookiejar self s r c) = Raised WrongSessionError
       \<and> meta_cookiejar (fst (snd (assign_cookiejar self s r c))) = Some k0
       \<and> snd (snd (assign_cookiejar self s r c)) = s"
  using assms by (auto simp: assign_cookiejar_def Let_def)

text \<open>
  Claim C4: a bind that is about to assign a key to a request that already has a different
  one fails with \<^verbatim>\<open>WrongSessionError\<close>, in each of its branches. On a spider without
  capacity bound and with an empty pool, the bind of a request that has the cookiejar
  \<^verbatim>\<open>k0\<close> takes the branch that starts a new session: \<^verbatim>\<open>init_request\<close> keeps \<^verbatim>\<open>k0\<close>, the
  newly generated \<^verbatim>\<open>u1\<close> is dropped, \<^verbatim>\<open>k0\<close> is locked and the bind returns \<^verbatim>\<open>True\<close>. The
  check \<^verbatim>\<open>'cookiejar' not in request.meta\<close> with its \<^verbatim>\<open>WrongSessionError\<close> is made only on the
  other path of the function.
\<close>

theorem assign_new_session_keeps_cookiejar:
  "assign_crawlera_session default_request_session ''u1'' 0 (new_spider None)
     (plain_request\<lparr>meta_cookiejar := Some ''k0''\<rparr>) None
   = (Returned True,
      \<lparr>meta_cookiejar = Some ''k0'', meta_no_crawlera_session = False,
       meta_defer_assign_crawlera_session = None,
       headers = [(''X-Crawlera-Session'', ''create''), (''X-Crawlera-Cookies'', ''disable'')]\<rparr>,
      (new_spider None)\<lparr>locked_sessions := {''k0''}\<rparr>)
   \<and> ''k0'' \<noteq> ''u1''"
  by (simp add: assign_crawlera_session_def can_add_new_sessions_def new_spider_def
      init_request_def adapt_request_def plain_request_def default_request_session_def Let_def)

text \<open>
  The other path of the function. When a request already has a cookiejar and the bind is
  given a cookiejar that has a token in the pool, or is given none and reuses an available
  session because no new one may be added, the bind raises \<^verbatim>\<open>WrongSessionError\<close>; the
  request keeps the cookiejar it had, and pool and locked set are unchanged. The error
  does not depend on the two keys being different.
\<close>

theorem assign_conflict:
  assumes "meta_cookiejar r = Some k0"
    and "(cookiejar = Some c \<and> map_of (crawlera_sessions s) c \<noteq> None)
       \<or> (cookiejar = None \<and> \<not> can_add_new_sessions s \<and> available_sessions s \<noteq> [])"
  shows "fst (assign_crawlera_session self uuid pick s r cookiejar) = Raised WrongSessionError
       \<and> meta_cookiejar (fst (snd (assign_crawlera_session self uuid pick s r cookiejar))) = Some k0
       \<and> snd (snd (assign_crawlera_session self uuid pick s r cookiejar)) = s"
proof -
  from assms(2) show ?thesis
  proof
    assume "cookiejar = Some c \<and> map_of (crawlera_sessions s) c \<noteq> None"
    with assign_cookiejar_conflict [OF assms(1), of s c self] show ?thesis
      by (simp add: assign_crawlera_session_def)
  next
    assume a: "cookiejar = None \<and> \<not> can_add_new_sessions s \<and> available_sessions s \<noteq> []"
    then have "random_choice pick (available_sessions s) \<in> set (available_sessions s)"
      by (simp add: random_choice_in_set)
    then have "map_of (crawlera_sessions s) (random_choice pick (available_sessions s)) \<noteq> None"
      by (rule available_sessions_in_pool)
    with a assign_cookiejar_conflict [OF assms(1), of s "random_choice pick (available_sessions s)" self]
    show ?thesis
      by (simp add: assign_crawlera_session_def)
  qed
qed

theorem assign_conflict_witness:
  "fst (assign_crawlera_session default_request_session ''u1'' 0 pool1
          (plain_request\<lparr>meta_cookiejar := Some ''k0''\<rparr>) (Some ''k1'')) = Raised WrongSessionError
   \<and> fst (assign_crawlera_session default_request_session ''u1'' 0 pool1
          (plain_request\<lparr>meta_cookiejar := Some ''k0''\<rparr>) None) = Raised WrongSessionError"
proof -
  have r: "meta_cookiejar (plain_request\<lparr>meta_cookiejar := Some ''k0''\<rparr>) = Some ''k0''"
    by simp
  have h1: "(Some ''k1'' = Some ''k1'' \<and> map_of (crawlera_sessions pool1) ''k1'' \<noteq> None)
       \<or> (Some ''k1'' = None \<and> \<not> can_add_new_sessions pool1 \<and> available_sessions pool1 \<noteq> [])"
    by (simp add: pool1_def new_spider_def)
  have h2: "((None :: string option) = Some ''k1'' \<and> map_of (crawlera_sessions pool1) ''k1'' \<noteq> None)
       \<or> ((None :: string option) = None \<and> \<not> can_add_new_sessions pool1 \<and> available_sessions pool1 \<noteq> [])"
    by (simp add: pool1_def new_spider_def can_add_new_sessions_def available_sessions_def)
  from assign_conflict [OF r h1] assign_conflict [OF r h2] show ?thesis
    by simp
qed

section \<open>Capacity\<close>

text \<open>
  Claim C1: with the capacity set, the pool never has more entries than
  \<^verbatim>\<open>MAX_PARALLEL_CRAWLERA_SESSIONS\<close>. The bind never writes the pool, and
  \<^verbatim>\<open>can_add_new_sessions\<close> counts only the sessions a response has confirmed: with
  capacity 2, three binds before the first response each start a new session, and the three
  responses leave three entries in the pool.
\<close>

theorem capacity_exceeded:
  "fst (snd (assign_crawlera_session default_request_session ''k1'' 0 (new_spider (Some 2))
              plain_request None)) = bound_request ''k1''
   \<and> run [Bind default_request_session ''k1'' 0 plain_request None,
          Bind default_request_session ''k2'' 0 plain_request None,
          Bind default_request_session ''k3'' 0 plain_request None,
          Record (bound_request ''k1'') (session_response ''k1'' ''t1''),
          Record (bound_request ''k2'') (session_response ''k2'' ''t2''),
          Record (bound_request ''k3'') (session_response ''k3'' ''t3'')]
        (new_spider (Some 2))
     = \<lparr>crawlera_sessions = [(''k1'', ''t1''), (''k2'', ''t2''), (''k3'', ''t3'')],
        locked_sessions = {''k1'', ''k2'', ''k3''},
        MAX_PARALLEL_CRAWLERA_SESSIONS = Some 2, stats_no_unlocked_sessions = 0\<rparr>"
  by (simp add: assign_crawlera_session_def can_add_new_sessions_def new_spider_def
      init_request_def adapt_request_def plain_request_def default_request_session_def Let_def
      bound_request_def process_response_def session_response_def setdefault_def insert_commute)

text \<open>
  Claim C3: with capacity 2 and no response in between, the third bind reports that no
  session is available, and binds to \<^verbatim>\<open>k1\<close> once \<^verbatim>\<open>k1\<close> is unlocked. The pool is still
  empty at the third bind, so it starts a third session \<^verbatim>\<open>k3\<close>; after the unlock of
  \<^verbatim>\<open>k1\<close>, binding the same request again keeps \<^verbatim>\<open>k3\<close> with the token header \<^verbatim>\<open>create\<close>.
\<close>

theorem third_bind_starts_session:
  "run [Bind default_request_session ''k1'' 0 plain_request None,
        Bind default_request_session ''k2'' 0 plain_request None] (new_spider (Some 2))
     = (new_spider (Some 2))\<lparr>locked_sessions := {''k1'', ''k2''}\<rparr>
   \<and> assign_crawlera_session default_request_session ''k3'' 0
        ((new_spider (Some 2))\<lparr>locked_sessions := {''k1'', ''k2''}\<rparr>) plain_request None
     = (Returned True, bound_request ''k3'',
        (new_spider (Some 2))\<lparr>locked_sessions := {''k1'', ''k2'', ''k3''}\<rparr>)
   \<and> unlock_session ((new_spider (Some 2))\<lparr>locked_sessions := {''k1'', ''k2'', ''k3''}\<rparr>)
        (session_response ''k1'' ''t1'')
     = (Returned (), (new_spider (Some 2))\<lparr>locked_sessions := {''k2'', ''k3''}\<rparr>)
   \<and> assign_crawlera_session default_request_session ''k4'' 0
        ((new_spider (Some 2))\<lparr>locked_sessions := {''k2'', ''k3''}\<rparr>) (bound_request ''k3'') None
     = (Returned True, bound_request ''k3'',
        (new_spider (Some 2))\<lparr>locked_sessions := {''k2'', ''k3''}\<rparr>)
   \<and> meta_cookiejar (bound_request ''k3'') = Some ''k3''
   \<and> map_of (headers (bound_request ''k3'')) ''X-Crawlera-Session'' = Some ''create''"
  by (auto simp: assign_crawlera_session_def can_add_new_sessions_def new_spider_def
      init_request_def adapt_request_def plain_request_def default_request_session_def Let_def
      bound_request_def unlock_session_def session_response_def)

text \<open>
  The same scenario with the responses to the first two requests recorded before the
  third bind: the third bind returns \<^verbatim>\<open>False\<close>, and after the unlock of \<^verbatim>\<open>k1\<close> it binds the
  request to \<^verbatim>\<open>k1\<close> with the stored token \<^verbatim>\<open>t1\<close>, whatever the random choice.
\<close>

lemma scenario_after_responses:
  "run [Bind default_request_session ''k1'' 0 plain_request None,
        Bind default_request_session ''k2'' 0 plain_request None,
        Record (bound_request ''k1'') (session_response ''k1'' ''t1''),
        Record (bound_request ''k2'') (session_response ''k2'' ''t2'')] (new_spider (Some 2))
     = (new_spider (Some 2))\<lparr>crawlera_sessions := [(''k1'', ''t1''), (''k2'', ''t2'')],
          locked_sessions := {''k1'', ''k2''}\<rparr>"
  "assign_crawlera_session default_request_session uuid pick
        ((new_spider (Some 2))\<lparr>crawlera_sessions := [(''k1'', ''t1''), (''k2'', ''t2'')],
          locked_sessions := {''k1'', ''k2''}\<rparr>) plain_request None
     = (Returned False, plain_request,
        (new_spider (Some 2))\<lparr>crawlera_sessions := [(''k1'', ''t1''), (''k2'', ''t2'')],
          locked_sessions := {''k1'', ''k2''}\<rparr>)"
  "unlock_session ((new_spider (Some 2))\<lparr>crawlera_sessions := [(''k1'', ''t1''), (''k2'', ''t2'')],
          locked_sessions := {''k1'', ''k2''}\<rparr>) (session_response ''k1'' ''t1'')
     = (Returned (), (new_spider (Some 2))\<lparr>crawlera_sessions := [(''k1'', ''t1''), (''k2'', ''t2'')],
          locked_sessions := {''k2''}\<rparr>)"
  "assign_crawlera_session default_request_session uuid pick
        ((new_spider (Some 2))\<lparr>crawlera_sessions := [(''k1'', ''t1''), (''k2'', ''t2'')],
          locked_sessions := {''k2''}\<rparr>) plain_request None
     = (Returned True,
        plain_request\<lparr>meta_cookiejar := Some ''k1'',
          headers := [(''X-Crawlera-Session'', ''t1''), (''X-Crawlera-Cookies'', ''disable'')]\<rparr>,
        (new_spider (Some 2))\<lparr>crawlera_sessions := [(''k1'', ''t1''), (''k2'', ''t2'')],
          locked_sessions := {''k1'', ''k2''}\<rparr>)"
  by (auto simp: assign_crawlera_session_def assign_cookiejar_def can_add_new_sessions_def
      new_spider_def available_sessions_def random_choice_def
      init_request_def adapt_request_def plain_request_def default_request_session_def Let_def
      bound_request_def unlock_session_def session_response_def process_response_def
      setdefault_def)

section \<open>Locked keys and the pool\<close>

text \<open>
  Claim C2, as stated: the locked keys are always keys of the pool. The first bind on a
  new spider locks the key of the session it starts, and the pool is empty until a
  response records the token.
\<close>

theorem locked_not_in_pool_counterexample:
  "\<not> locked_sessions (run [Bind default_request_session ''k1'' 0 plain_request None] (new_spider None))
      \<subseteq> pool_keys (run [Bind default_request_session ''k1'' 0 plain_request None] (new_spider None))"
  by (simp add: assign_crawlera_session_def can_add_new_sessions_def new_spider_def
      init_request_def adapt_request_def plain_request_def default_request_session_def Let_def
      pool_keys_def)

text \<open>What a bind does to the spider: it locks the key it bound, or changes nothing.\<close>

lemma assign_cookiejar_spider:
  assumes "assign_cookiejar self s r c = (out, r1, s1)"
  shows "(out = Returned True \<and> meta_cookiejar r1 = Some c
            \<and> s1 = s\<lparr>locked_sessions := insert c (locked_sessions s)\<rparr>)
       \<or> (out \<noteq> Returned True \<and> s1 = s)"
  using assms by (auto simp: assign_cookiejar_def Let_def split: if_splits option.splits)

lemma assign_crawlera_session_spider:
  assumes "assign_crawlera_session self uuid pick s r cookiejar = (out, r1, s1)"
  shows "(out = Returned True
            \<and> (\<exists>k. meta_cookiejar r1 = Some k
                  \<and> s1 = s\<lparr>locked_sessions := insert k (locked_sessions s)\<rparr>))
       \<or> (out \<noteq> Returned True \<and> s1 = s)"
proof (cases cookiejar)
  case (Some c)
  with assms assign_cookiejar_spider [of self s r c out r1 s1] show ?thesis
    by (auto simp: assign_crawlera_session_def)
next
  case None
  show ?thesis
  proof (cases "can_add_new_sessions s")
    case True
    with None assms show ?thesis
      by (auto simp: assign_crawlera_session_def Let_def split: option.splits)
  next
    case False
    show ?thesis
    proof (cases "available_sessions s = []")
      case True
      with None False assms show ?thesis
        by (auto simp: assign_crawlera_session_def)
    next
      case avail: False
      with None False assms
        assign_cookiejar_spider [of self s r "random_choice pick (available_sessions s)" out r1 s1]
      show ?thesis
        by (auto simp: assign_crawlera_session_def)
    qed
  qed
qed

lemma step_pool_keys: "pool_keys s \<subseteq> pool_keys (step e s)"
proof (cases e)
  case (Bind self uuid pick r cookiejar)
  obtain out r1 s1 where a: "assign_crawlera_session self uuid pick s r cookiejar = (out, r1, s1)"
    by (cases "assign_crawlera_session self uuid pick s r cookiejar") auto
  from assign_crawlera_session_spider [OF a] have "crawlera_sessions s1 = crawlera_sessions s"
    by auto
  with Bind a show ?thesis by (simp add: pool_keys_def)
next
  case (Record r resp)
  then show ?thesis
    by (auto simp: pool_keys_def process_response_def setdefault_def split: option.splits)
next
  case (Unlock resp)
  then show ?thesis
    by (auto simp: pool_keys_def unlock_session_def split: option.splits)
qed

lemma step_locked:
  "locked_sessions (step e s) \<subseteq> locked_sessions s \<union> pool_keys s \<union> unconfirmed_key e s"
proof (cases e)
  case (Bind self uuid pick r cookiejar)
  obtain out r1 s1 where a: "assign_crawlera_session self uuid pick s r cookiejar = (out, r1, s1)"
    by (cases "assign_crawlera_session self uuid pick s r cookiejar") auto
  from assign_crawlera_session_spider [OF a] show ?thesis
  proof
    assume "out = Returned True
      \<and> (\<exists>k. meta_cookiejar r1 = Some k \<and> s1 = s\<lparr>locked_sessions := insert k (locked_sessions s)\<rparr>)"
    then obtain k where k: "out = Returned True" "meta_cookiejar r1 = Some k"
        "s1 = s\<lparr>locked_sessions := insert k (locked_sessions s)\<rparr>"
      by blast
    show ?thesis
    proof (cases "map_of (crawlera_sessions s) k")
      case None
      with Bind a k show ?thesis by (auto simp: unconfirmed_key_def)
    next
      case (Some t)
      then have "k \<in> pool_keys s"
        by (auto simp: pool_keys_def dest: map_of_SomeD intro: rev_image_eqI)
      with Bind a k show ?thesis by auto
    qed
  next
    assume "out \<noteq> Returned True \<and> s1 = s"
    with Bind a show ?thesis by auto
  qed
next
  case (Record r resp)
  then show ?thesis
    by (auto simp: process_response_def split: option.splits)
next
  case (Unlock resp)
  then show ?thesis
    by (auto simp: unlock_session_def split: option.splits)
qed

lemma run_locked:
  "locked_sessions s \<subseteq> pool_keys s \<union> U
   \<Longrightarrow> locked_sessions (run es s) \<subseteq> pool_keys (run es s) \<union> U \<union> unconfirmed_keys es s"
proof (induction es arbitrary: s U)
  case Nil
  then show ?case by simp
next
  case (Cons e es)
  from Cons.prems step_locked [of e s] step_pool_keys [of s e]
  have "locked_sessions (step e s) \<subseteq> pool_keys (step e s) \<union> (U \<union> unconfirmed_key e s)"
    by blast
  from Cons.IH [OF this] show ?case
    by (simp add: Un_assoc)
qed

text \<open>
  A bind without cookiejar that reuses an available session takes its key from the pool:
  such a bind leaves a key outside the pool only when it starts a new session.
\<close>

lemma unconfirmed_key_new_session:
  assumes "unconfirmed_key (Bind self uuid pick r None) s \<noteq> {}"
  shows "can_add_new_sessions s"
proof (rule ccontr)
  assume n: "\<not> can_add_new_sessions s"
  show False
  proof (cases "available_sessions s = []")
    case True
    with n assms show False
      by (simp add: unconfirmed_key_def assign_crawlera_session_def)
  next
    case False
    let ?c = "random_choice pick (available_sessions s)"
    from False have "?c \<in> set (available_sessions s)"
      by (rule random_choice_in_set)
    then have p: "map_of (crawlera_sessions s) ?c \<noteq> None"
      by (rule available_sessions_in_pool)
    obtain out r1 s1 where a: "assign_cookiejar self s r ?c = (out, r1, s1)"
      by (cases "assign_cookiejar self s r ?c") auto
    from assign_cookiejar_spider [OF a] p n False a assms show False
      by (auto simp: unconfirmed_key_def assign_crawlera_session_def split: outcome.splits bool.splits)
  qed
qed

text \<open>
  Claim C2, amended. From a state in which every locked key is a key of the pool, after
  every sequence of binds, token recordings and unlocks every locked key is a key of the
  pool or a key that a successful bind of the sequence attached to its request while the
  pool had no token for it.
\<close>

theorem locked_in_pool_or_unconfirmed:
  assumes "locked_sessions s \<subseteq> pool_keys s"
  shows "locked_sessions (run es s) \<subseteq> pool_keys (run es s) \<union> unconfirmed_keys es s"
  using run_locked [of s "{}" es] assms by simp

theorem locked_in_pool_or_unconfirmed_witness:
  "locked_sessions (new_spider None) \<subseteq> pool_keys (new_spider None)
   \<and> locked_sessions (run [Bind default_request_session ''k1'' 0 plain_request None,
                            Record (bound_request ''k1'') (session_response ''k1'' ''t1'')]
                        (new_spider None))
     \<subseteq> pool_keys (run [Bind default_request_session ''k1'' 0 plain_request None,
                            Record (bound_request ''k1'') (session_response ''k1'' ''t1'')]
                        (new_spider None))
       \<union> unconfirmed_keys [Bind default_request_session ''k1'' 0 plain_request None,
                            Record (bound_request ''k1'') (session_response ''k1'' ''t1'')]
                        (new_spider None)"
proof -
  have h: "locked_sessions (new_spider None) \<subseteq> pool_keys (new_spider None)"
    by (simp add: new_spider_def)
  from h locked_in_pool_or_unconfirmed [OF h] show ?thesis by blast
qed

section \<open>The admission gate\<close>

lemma can_enqueue_request_uniform:
  "\<not> cookiejar_truthy x \<Longrightarrow> \<not> cookiejar_truthy r
   \<Longrightarrow> can_enqueue_request s x = can_enqueue_request s r"
  by (simp add: can_enqueue_request_def)

lemma can_enqueue_request_truthy: "cookiejar_truthy r \<Longrightarrow> can_enqueue_request s r"
  by (simp add: can_enqueue_request_def)

lemma first_enqueueable_Some:
  "first_enqueueable s rs = Some x \<Longrightarrow> x \<in> set rs \<and> can_enqueue_request s x"
  by (induction rs) (auto split: if_splits)

lemma first_enqueueable_None:
  "first_enqueueable s rs = None \<Longrightarrow> x \<in> set rs \<Longrightarrow> \<not> can_enqueue_request s x"
  by (induction rs) (auto split: if_splits)

lemma next_request_head:
  assumes "retained_requests g = x # rest" and "can_enqueue_request s x"
  shows "next_request s g = (Some x, g\<lparr>retained_requests := rest\<rparr>)"
  using assms by (simp add: next_request_def)

lemma next_request_retained_set:
  "set (retained_requests (snd (next_request s g)))
     \<subseteq> set (retained_requests g) \<union> {x. \<not> can_enqueue_request s x}"
  by (auto simp: next_request_def split: option.splits list.splits if_splits
      dest: notin_set_remove1)

lemma next_request_keeps_unbound:
  assumes "\<forall>x \<in> set (retained_requests g). \<not> cookiejar_truthy x"
  shows "\<forall>x \<in> set (retained_requests (snd (next_request s g))). \<not> cookiejar_truthy x"
  using assms next_request_retained_set [of s g] can_enqueue_request_truthy [of _ s]
  by blast

lemma pulls_keep_unbound:
  "\<forall>x \<in> set (retained_requests g). \<not> cookiejar_truthy x
   \<Longrightarrow> \<forall>x \<in> set (retained_requests (snd (pulls ss g))). \<not> cookiejar_truthy x"
proof (induction ss arbitrary: g)
  case Nil
  then show ?case by simp
next
  case (Cons s ss)
  from next_request_keeps_unbound [OF Cons.prems, of s]
  have "\<forall>x \<in> set (retained_requests (snd (pulls ss (snd (next_request s g))))). \<not> cookiejar_truthy x"
    by (rule Cons.IH)
  then show ?case
    by (simp split: prod.splits)
qed

lemma pulls_replay:
  assumes "\<forall>x \<in> set (retained_requests g). \<not> cookiejar_truthy x"
    and "retained_requests g = pre @ r # post"
    and "\<forall>s \<in> set ss. can_enqueue_request s r"
    and "length ss = Suc (length pre)"
  shows "pulls ss g = (map Some (pre @ [r]), g\<lparr>retained_requests := post\<rparr>)"
  using assms
proof (induction pre arbitrary: g ss)
  case Nil
  then obtain s where ss: "ss = [s]"
    by (cases ss) auto
  with Nil.prems have "can_enqueue_request s r" by simp
  with Nil.prems(2) have "next_request s g = (Some r, g\<lparr>retained_requests := post\<rparr>)"
    by (simp add: next_request_head)
  with ss show ?case by simp
next
  case (Cons x pre)
  then obtain s ss' where ss: "ss = s # ss'" and len: "length ss' = Suc (length pre)"
    by (cases ss) auto
  from Cons.prems(1,2) have "\<not> cookiejar_truthy x" and "\<not> cookiejar_truthy r"
    by simp_all
  then have "can_enqueue_request s x = can_enqueue_request s r"
    by (rule can_enqueue_request_uniform)
  with Cons.prems(3) ss have "can_enqueue_request s x" by simp
  with Cons.prems(2)
  have nr: "next_request s g = (Some x, g\<lparr>retained_requests := pre @ r # post\<rparr>)"
    by (simp add: next_request_head)
  let ?g1 = "g\<lparr>retained_requests := pre @ r # post\<rparr>"
  from Cons.prems(1,2) have u: "\<forall>x \<in> set (retained_requests ?g1). \<not> cookiejar_truthy x"
    by simp
  have r1: "retained_requests ?g1 = pre @ r # post" by simp
  from Cons.prems(3) ss have e: "\<forall>s \<in> set ss'. can_enqueue_request s r" by simp
  from Cons.IH [OF u r1 e len]
  have "pulls ss' ?g1 = (map Some (pre @ [r]), g\<lparr>retained_requests := post\<rparr>)"
    by simp
  with nr ss show ?case by simp
qed

text \<open>
  One pull: when a retained request can be enqueued, the pull returns a retained request
  and leaves the scheduler alone.
\<close>

lemma next_request_prefers_retained:
  assumes "r \<in> set (retained_requests g)" and "can_enqueue_request s r"
  shows "scheduler_queue (snd (next_request s g)) = scheduler_queue g
       \<and> (\<exists>x \<in> set (retained_requests g). fst (next_request s g) = Some x)"
proof (cases "first_enqueueable s (retained_requests g)")
  case None
  from first_enqueueable_None [OF None assms(1)] assms(2) show ?thesis
    by simp
next
  case (Some x)
  from first_enqueueable_Some [OF Some] Some show ?thesis
    by (simp add: next_request_def)
qed

text \<open>
  The retained requests are kept in the order in which the scheduler handed them out:
  a pull removes one of them or appends the request it has just taken from the scheduler.
  Here \<open>q\<close> is what the scheduler held at the start and \<open>n\<close> the number of requests taken
  from it so far.
\<close>

lemma subseq_remove1: "subseq (remove1 x xs) xs"
  by (induction xs) auto

lemma next_request_arrival:
  assumes "scheduler_queue g = drop n q" and "subseq (retained_requests g) (take n q)"
  shows "\<exists>m. scheduler_queue (snd (next_request s g)) = drop m q
            \<and> subseq (retained_requests (snd (next_request s g))) (take m q)"
proof (cases "first_enqueueable s (retained_requests g)")
  case (Some x)
  have "subseq (remove1 x (retained_requests g)) (retained_requests g)"
    by (rule subseq_remove1)
  then have "subseq (remove1 x (retained_requests g)) (take n q)"
    using assms(2) by (rule subseq_order.trans)
  with Some assms(1) show ?thesis
    by (auto simp: next_request_def)
next
  case None
  show ?thesis
  proof (cases "scheduler_queue g")
    case Nil
    with None assms show ?thesis
      by (auto simp: next_request_def)
  next
    case (Cons new_request rest)
    with assms(1) have d: "drop n q = new_request # rest"
      by simp
    then have n: "n < length q"
      by (cases "n < length q") auto
    from d n have nr: "new_request = q ! n" and rest: "rest = drop (Suc n) q"
      by (simp_all add: Cons_nth_drop_Suc [symmetric])
    from n nr have t: "take (Suc n) q = take n q @ [new_request]"
      by (simp add: take_Suc_conv_app_nth)
    from assms(2) have a: "subseq (retained_requests g) (take (Suc n) q)"
      unfolding t by (rule subseq_rev_drop_many)
    from assms(2) have b: "subseq (retained_requests g @ [new_request]) (take (Suc n) q)"
      unfolding t by simp
    from None Cons rest a b show ?thesis
      by (auto simp: next_request_def)
  qed
qed

lemma pulls_arrival:
  "scheduler_queue g = drop n q \<Longrightarrow> subseq (retained_requests g) (take n q)
   \<Longrightarrow> \<exists>m. scheduler_queue (snd (pulls ss g)) = drop m q
            \<and> subseq (retained_requests (snd (pulls ss g))) (take m q)"
proof (induction ss arbitrary: g n)
  case Nil
  then show ?case by auto
next
  case (Cons s ss)
  from next_request_arrival [OF Cons.prems, of s]
  obtain m where "scheduler_queue (snd (next_request s g)) = drop m q"
      and "subseq (retained_requests (snd (next_request s g))) (take m q)"
    by blast
  then have "\<exists>k. scheduler_queue (snd (pulls ss (snd (next_request s g)))) = drop k q
            \<and> subseq (retained_requests (snd (pulls ss (snd (next_request s g))))) (take k q)"
    by (rule Cons.IH)
  then show ?case
    by (cases "next_request s g"; cases "pulls ss (snd (next_request s g))") auto
qed

text \<open>
  Claim C6, as stated: a retained request, once it can be enqueued, is returned before any
  request taken from the scheduler after it was retained. With capacity 1 and the one
  session \<^verbatim>\<open>k1\<close> locked, two deferred requests are retained. After the unlock of \<^verbatim>\<open>k1\<close> both
  can be enqueued; the next pull returns the first, whose deferred bind in
  \<^verbatim>\<open>process_request\<close> locks \<^verbatim>\<open>k1\<close> again; the pull after that finds the second one not
  enqueueable and returns a request from the scheduler that has a cookiejar, while the
  second deferred request is still retained.
\<close>

theorem eligible_once_overtaken_counterexample:
  "pulls [pool1_locked, pool1_locked] (new_gate [deferred1, deferred2, bound_request ''k1''])
     = ([None, None],
        \<lparr>retained_requests = [deferred1, deferred2], scheduler_queue = [bound_request ''k1'']\<rparr>)
   \<and> unlock_session pool1_locked (session_response ''k1'' ''t1'') = (Returned (), pool1)
   \<and> can_enqueue_request pool1 deferred2
   \<and> next_request pool1
        \<lparr>retained_requests = [deferred1, deferred2], scheduler_queue = [bound_request ''k1'']\<rparr>
     = (Some deferred1,
        \<lparr>retained_requests = [deferred2], scheduler_queue = [bound_request ''k1'']\<rparr>)
   \<and> fst (process_request ''u1'' 0 pool1 deferred1) = Returned ()
   \<and> snd (snd (process_request ''u1'' 0 pool1 deferred1)) = pool1_locked
   \<and> next_request pool1_locked
        \<lparr>retained_requests = [deferred2], scheduler_queue = [bound_request ''k1'']\<rparr>
     = (Some (bound_request ''k1''),
        \<lparr>retained_requests = [deferred2], scheduler_queue = []\<rparr>)
   \<and> deferred2 \<noteq> bound_request ''k1''"
  by (simp add: next_request_def new_gate_def can_enqueue_request_def cookiejar_truthy_def
        can_add_new_sessions_def available_sessions_def pool1_locked_def pool1_def new_spider_def
        plain_request_def deferred_request_def deferred1_def deferred2_def bound_request_def
        init_request_def adapt_request_def default_request_session_def unlock_session_def
        session_response_def process_request_def assign_crawlera_session_def
        assign_cookiejar_def random_choice_def Let_def)

text \<open>
  Claim C6, amended. Take any state of the gate reached by pulls from its initial state,
  and a request \<open>r\<close> retained in it behind the requests \<open>pre\<close>. The retained requests
  stand in the order in which the scheduler handed them out. If \<open>r\<close> can be enqueued at
  each of the next pulls up to its own, these pulls return the requests of \<open>pre\<close> in that
  order and then \<open>r\<close>, and none of them takes a request from the scheduler.
\<close>

theorem retained_replayed_in_arrival_order:
  assumes "g = snd (pulls ss0 (new_gate q))"
    and "retained_requests g = pre @ r # post"
    and "\<forall>s \<in> set ss. can_enqueue_request s r"
    and "length ss = Suc (length pre)"
  shows "(\<exists>n. scheduler_queue g = drop n q \<and> subseq (pre @ r # post) (take n q))
       \<and> fst (pulls ss g) = map Some (pre @ [r])
       \<and> retained_requests (snd (pulls ss g)) = post
       \<and> scheduler_queue (snd (pulls ss g)) = scheduler_queue g"
proof -
  have "\<forall>x \<in> set (retained_requests (new_gate q)). \<not> cookiejar_truthy x"
    by (simp add: new_gate_def)
  then have "\<forall>x \<in> set (retained_requests (snd (pulls ss0 (new_gate q)))). \<not> cookiejar_truthy x"
    by (rule pulls_keep_unbound)
  with assms(1) have u: "\<forall>x \<in> set (retained_requests g). \<not> cookiejar_truthy x"
    by simp
  have "scheduler_queue (new_gate q) = drop 0 q"
    and "subseq (retained_requests (new_gate q)) (take 0 q)"
    by (simp_all add: new_gate_def)
  then have "\<exists>m. scheduler_queue (snd (pulls ss0 (new_gate q))) = drop m q
            \<and> subseq (retained_requests (snd (pulls ss0 (new_gate q)))) (take m q)"
    by (rule pulls_arrival)
  with assms(1,2) have a: "\<exists>n. scheduler_queue g = drop n q \<and> subseq (pre @ r # post) (take n q)"
    by simp
  from a pulls_replay [OF u assms(2,3,4)] show ?thesis
    by simp
qed

theorem retained_replayed_in_arrival_order_witness:
  "retained_requests (snd (pulls [pool1_locked, pool1_locked]
       (new_gate [plain_request, deferred_request, bound_request ''k1''])))
     = [plain_request] @ deferred_request # []
   \<and> can_enqueue_request pool1 deferred_request
   \<and> fst (pulls [pool1, pool1] (snd (pulls [pool1_locked, pool1_locked]
       (new_gate [plain_request, deferred_request, bound_request ''k1'']))))
     = [Some plain_request, Some deferred_request]
   \<and> scheduler_queue (snd (pulls [pool1, pool1] (snd (pulls [pool1_locked, pool1_locked]
       (new_gate [plain_request, deferred_request, bound_request ''k1''])))))
     = [bound_request ''k1'']"
proof -
  let ?g = "snd (pulls [pool1_locked, pool1_locked]
       (new_gate [plain_request, deferred_request, bound_request ''k1'']))"
  have g: "?g = \<lparr>retained_requests = [plain_request, deferred_request],
                 scheduler_queue = [bound_request ''k1'']\<rparr>"
    by (simp add: next_request_def new_gate_def can_enqueue_request_def cookiejar_truthy_def
        can_add_new_sessions_def available_sessions_def pool1_locked_def pool1_def new_spider_def
        plain_request_def deferred_request_def)
  have h1: "?g = snd (pulls [pool1_locked, pool1_locked]
       (new_gate [plain_request, deferred_request, bound_request ''k1'']))"
    by (rule refl)
  have h2: "retained_requests ?g = [plain_request] @ deferred_request # []"
    unfolding g by simp
  have h3: "\<forall>s \<in> set [pool1, pool1]. can_enqueue_request s deferred_request"
    by (simp add: can_enqueue_request_def can_add_new_sessions_def available_sessions_def
        pool1_def new_spider_def)
  have h4: "length [pool1, pool1] = Suc (length [plain_request])"
    by simp
  from retained_replayed_in_arrival_order [OF h1 h2 h3 h4, unfolded g] h3 show ?thesis
    unfolding g by simp
qed

end
